theory Spec2Isabelle
  imports Complex_Main "HOL-Library.Sublist"
begin

section \<open>Values of the program\<close>

text \<open>
  The guidance engine of \<^verbatim>\<open>ROTC_Weather.py\<close> is a pipeline of pure functions on
  Python numbers and strings. Numbers are modelled as \<^typ>\<open>real\<close> (the arithmetic of the
  source read over the reals, decimal literals as the exact decimals they denote), the
  absent value \<^verbatim>\<open>None\<close> as \<^const>\<open>None\<close> of an option type, and a string as a
  \<^typ>\<open>string\<close> of ASCII characters; the one non-ASCII character of the source's
  string literals, the em dash, is the three bytes of its UTF-8 encoding.
\<close>

definition em_dash :: string where
  "em_dash = [CHR 0xE2, CHR 0x80, CHR 0x94]"

text \<open>\<^verbatim>\<open>str.lower()\<close> on ASCII text: the letters A to Z go to a to z, every other
  character stays.\<close>

definition lower_char :: "char \<Rightarrow> char" where
  "lower_char c =
     (case map_of (zip ''ABCDEFGHIJKLMNOPQRSTUVWXYZ'' ''abcdefghijklmnopqrstuvwxyz'') c of
        Some d \<Rightarrow> d
      | None \<Rightarrow> c)"

definition lower_str :: "string \<Rightarrow> string" where
  "lower_str s = map lower_char s"

text \<open>Python's \<^verbatim>\<open>sub in s\<close> on strings: \<open>sub\<close> occurs in \<open>s\<close> as a contiguous
  substring.\<close>

fun str_in :: "string \<Rightarrow> string \<Rightarrow> bool" where
  "str_in sub [] = (sub = [])"
| "str_in sub (c # cs) = (prefix sub (c # cs) \<or> str_in sub cs)"

text \<open>The truth value of \<^verbatim>\<open>if precip_override:\<close>: \<^verbatim>\<open>None\<close> and the empty string are
  false, every other string is true.\<close>

fun truthy :: "string option \<Rightarrow> bool" where
  "truthy None = False"
| "truthy (Some s) = (s \<noteq> [])"

section \<open>Thermal index helpers\<close>

definition WBGT_CUTOFF_F :: real where
  "WBGT_CUTOFF_F = 50"



text \<open>\<^verbatim>\<open>wind_mph ** 0.16\<close> is only evaluated for \<open>wind_mph > 3\<close>, where Python's power
  is the real power \<^term>\<open>wind_mph powr 0.16\<close>.\<close>

definition wind_chill_f :: "real \<Rightarrow> real \<Rightarrow> real option" where
  "wind_chill_f Tf wind_mph =
     (if Tf > 50 \<or> wind_mph \<le> 3 then None
      else Some (35.74 + 0.6215 * Tf - 35.75 * (wind_mph powr 0.16)
                 + 0.4275 * Tf * (wind_mph powr 0.16)))"

section \<open>Hazard classification\<close>

definition heat_category_from_wbgt_f :: "real \<Rightarrow> string \<times> int" where
  "heat_category_from_wbgt_f wbgt_f =
     (if wbgt_f < 78 then (''Below White'', 1)
      else if 78 \<le> wbgt_f \<and> wbgt_f \<le> 81.9 then (''White (Cat 1)'', 1)
      else if 82 \<le> wbgt_f \<and> wbgt_f \<le> 84.9 then (''Green (Cat 2)'', 2)
      else if 85 \<le> wbgt_f \<and> wbgt_f \<le> 87.9 then (''Yellow (Cat 3)'', 3)
      else if 88 \<le> wbgt_f \<and> wbgt_f \<le> 89.9 then (''Red (Cat 4)'', 4)
      else (''Black (Cat 5)'', 5))"

text \<open>The precipitation interpreter returns the hazard level, a note and an optional
  hard override. \<open>interpret_lowered\<close> is the chain of tests of the source on the lowered
  text \<^verbatim>\<open>c\<close>; \<open>interpret_condition\<close> lowers the argument first. The argument is
  optional: \<^verbatim>\<open>(cond_text or "")\<close> reads \<^verbatim>\<open>None\<close> as the empty string.\<close>

definition interpret_lowered :: "string \<Rightarrow> string \<times> string \<times> string option" where
  "interpret_lowered c =
     (if str_in ''thunder'' c \<or> str_in ''storm'' c
        then (''extreme'', ''Thunderstorm / lightning risk'', Some ''NO OUTDOOR TRAINING'')
      else if str_in ''freezing rain'' c \<or> (str_in ''freezing'' c \<and> str_in ''rain'' c)
        then (''extreme'', ''Freezing rain / ice risk'', Some ''NO OUTDOOR TRAINING'')
      else if str_in ''sleet'' c \<or> str_in ''ice'' c \<or> str_in ''icy'' c
        then (''extreme'', ''Icy conditions'', Some ''NO OUTDOOR TRAINING'')
      else if str_in ''blizzard'' c
        then (''extreme'', ''Blizzard / near-zero visibility'', Some ''NO OUTDOOR_TRAINING'')
      else if str_in ''heavy snow'' c
        then (''high'', ''Heavy snow '' @ em_dash @ '' visibility & slip risk'', None)
      else if str_in ''snow'' c \<or> str_in ''flurr'' c
        then (''moderate'', ''Snow present '' @ em_dash @ '' traction/visibility caution'', None)
      else if str_in ''heavy rain'' c \<or> str_in ''torrential'' c
        then (''high'', ''Heavy rain '' @ em_dash @ '' hypothermia & slip risk'', None)
      else if str_in ''rain'' c \<or> str_in ''shower'' c
        then (''moderate'', ''Rain '' @ em_dash @ '' wet/hypothermia risk'', None)
      else if str_in ''drizzle'' c \<or> str_in ''light rain'' c
        then (''low'', ''Light rain / drizzle'', None)
      else if str_in ''fog'' c \<or> str_in ''mist'' c
        then (''moderate'', ''Fog / reduced visibility'', None)
      else (''low'', ''No precipitation hazards'', None))"

definition interpret_condition :: "string option \<Rightarrow> string \<times> string \<times> string option" where
  "interpret_condition cond_text =
     interpret_lowered (lower_str (case cond_text of None \<Rightarrow> [] | Some t \<Rightarrow> t))"

section \<open>Decision policy\<close>

definition recommend_uniform_option_a ::
  "real \<Rightarrow> real option \<Rightarrow> int option \<Rightarrow> bool \<Rightarrow> string \<Rightarrow> string \<times> nat" where
  "recommend_uniform_option_a temp_f wind_chill heat_cat_num wbgt_applicable precip_level =
     (let by_temperature =
            (if temp_f \<le> 50 \<and> temp_f > 33
               then (''OCP + fleece optional; monitor wind and wetness.'', 1)
             else (''Standard OCP/PT uniform'', 0))
      in
      if precip_level = ''extreme''
        then (''Suspend outdoor training due to dangerous precipitation (lightning/ice).'', 3)
      else if wbgt_applicable \<and> heat_cat_num \<noteq> None then
        (if the heat_cat_num \<ge> 5
           then (''Light clothing only; no armor; full hydration and move indoors'', 3)
         else if the heat_cat_num = 4
           then (''Light OCP/PT, reduce load, hydrate frequently'', 2)
         else if the heat_cat_num = 3
           then (''OCP, consider modified load and frequent water breaks'', 1)
         else (''Standard OCP/PT uniform'', 0))
      else
        (case wind_chill of
           None \<Rightarrow> by_temperature
         | Some wc \<Rightarrow>
             if wc \<le> -20
               then (''Arctic clothing / extreme cold gear. No exposed skin. No outdoor training.'', 3)
             else if wc \<le> 0
               then (''Parka + layered clothing + gloves + balaclava. Move indoors for prolonged training.'', 2)
             else if wc \<le> 20
               then (''OCP + parka + gloves + warm layers. Limit prolonged exposed activities.'', 2)
             else if wc \<le> 32
               then (''OCP + fleece + gloves recommended.'', 1)
             else by_temperature))"

text \<open>\<^verbatim>\<open>float(temp_f)\<close> either gives a number or raises; the argument of
  \<^verbatim>\<open>recommend_pt_uniform\<close> is a value of the first kind, with the number it converts
  to, or of the second.\<close>

datatype pt_arg = Numeric real | NonNumeric

fun py_float :: "pt_arg \<Rightarrow> real option" where
  "py_float (Numeric t) = Some t"
| "py_float NonNumeric = None"

definition recommend_pt_uniform :: "pt_arg \<Rightarrow> string" where
  "recommend_pt_uniform temp_f =
     (case py_float temp_f of
        None \<Rightarrow> ''Standard PT uniform''
      | Some t \<Rightarrow>
          if t > 80 then ''Short-sleeve shirt + shorts''
          else if 60 \<le> t \<and> t \<le> 80 then ''Short-sleeve shirt + shorts (light jacket optional)''
          else if 40 \<le> t \<and> t \<le> 59 then ''Long-sleeve shirt + pants''
          else if 20 \<le> t \<and> t \<le> 39 then ''Sweats + jacket (+ hat optional)''
          else ''Full cold-weather PT gear (sweats, gloves, hat)'')"

definition final_training_decision ::
  "real \<Rightarrow> real option \<Rightarrow> int option \<Rightarrow> bool \<Rightarrow> string option \<Rightarrow> string \<Rightarrow> string" where
  "final_training_decision temp_f wind_chill heat_cat_num wbgt_applicable precip_override precip_level =
     (if truthy precip_override then the precip_override
      else if wind_chill \<noteq> None \<and> the wind_chill \<le> -20
        then ''NO OUTDOOR TRAINING '' @ em_dash @ '' EXTREME COLD''
      else if wind_chill \<noteq> None \<and> the wind_chill \<le> 0
        then ''MOVE TRAINING INDOORS / HIGH COLD RISK''
      else if wind_chill \<noteq> None \<and> the wind_chill \<le> 20
        then ''LIMIT OUTDOOR TRAINING / USE INDOORS WHEN POSSIBLE (COLD CAUTION)''
      else if precip_level = ''high''
        then ''LIMIT OUTDOOR TRAINING / USE INDOORS WHEN POSSIBLE (PRECIPITATION)''
      else if wbgt_applicable \<and> heat_cat_num \<noteq> None then
        (if the heat_cat_num \<ge> 5
           then ''NO OUTDOOR TRAINING '' @ em_dash @ '' EXTREME HEAT (BLACK FLAG)''
         else if the heat_cat_num = 4
           then ''LIMIT OUTDOOR TRAINING / USE INDOORS WHEN POSSIBLE (HEAT)''
         else if the heat_cat_num = 3
           then ''TRAIN OUTDOORS WITH CAUTION (HEAT)''
         else ''TRAIN OUTDOORS (NO RESTRICTIONS)'')
      else ''TRAIN OUTDOORS (NO RESTRICTIONS)'')"

section \<open>The dashboard's guidance step\<close>

text \<open>
  What the \<^verbatim>\<open>dashboard\<close> route computes from an observation once the WBGT estimate is
  known: the wind chill from temperature and wind, WBGT applicability from the cutoff,
  the heat category only when WBGT is applicable, the precipitation reading of the
  condition text, and from these the uniform and the final decision. The rounded WBGT
  in \<degree>F is an argument.
\<close>

definition dashboard_heat_num :: "real \<Rightarrow> real \<Rightarrow> int option" where
  "dashboard_heat_num temp_f wbgt_f =
     (if temp_f > WBGT_CUTOFF_F then Some (snd (heat_category_from_wbgt_f wbgt_f)) else None)"

definition dashboard_uniform :: "real \<Rightarrow> real \<Rightarrow> real \<Rightarrow> string option \<Rightarrow> string \<times> nat" where
  "dashboard_uniform temp_f wind_mph wbgt_f weather_text =
     (let wc = wind_chill_f temp_f wind_mph;
          wbgt_applicable = temp_f > WBGT_CUTOFF_F;
          heat_num = dashboard_heat_num temp_f wbgt_f;
          (precip_level, cond_note, precip_override) = interpret_condition weather_text
      in recommend_uniform_option_a temp_f wc heat_num wbgt_applicable precip_level)"

definition dashboard_final_dec :: "real \<Rightarrow> real \<Rightarrow> real \<Rightarrow> string option \<Rightarrow> string" where
  "dashboard_final_dec temp_f wind_mph wbgt_f weather_text =
     (let wc = wind_chill_f temp_f wind_mph;
          wbgt_applicable = temp_f > WBGT_CUTOFF_F;
          heat_num = dashboard_heat_num temp_f wbgt_f;
          (precip_level, cond_note, precip_override) = interpret_condition weather_text
      in final_training_decision temp_f wc heat_num wbgt_applicable precip_override precip_level)"

section \<open>The keyword rules as an ordered table\<close>

text \<open>
  The tests of \<^verbatim>\<open>interpret_condition\<close>, one row per \<^verbatim>\<open>if\<close> of the source and in the
  source's order. A row holds alternatives, each a list of keywords that must all occur
  in the lowered text, and the result returned when one alternative holds. The table is
  read top to bottom and the first row that matches decides.
\<close>

type_synonym precip_rule = "string list list \<times> string \<times> string \<times> string option"

definition precip_rules :: "precip_rule list" where
  "precip_rules =
     [([[''thunder''], [''storm'']],
         ''extreme'', ''Thunderstorm / lightning risk'', Some ''NO OUTDOOR TRAINING''),
      ([[''freezing rain''], [''freezing'', ''rain'']],
         ''extreme'', ''Freezing rain / ice risk'', Some ''NO OUTDOOR TRAINING''),
      ([[''sleet''], [''ice''], [''icy'']],
         ''extreme'', ''Icy conditions'', Some ''NO OUTDOOR TRAINING''),
      ([[''blizzard'']],
         ''extreme'', ''Blizzard / near-zero visibility'', Some ''NO OUTDOOR_TRAINING''),
      ([[''heavy snow'']],
         ''high'', ''Heavy snow '' @ em_dash @ '' visibility & slip risk'', None),
      ([[''snow''], [''flurr'']],
         ''moderate'', ''Snow present '' @ em_dash @ '' traction/visibility caution'', None),
      ([[''heavy rain''], [''torrential'']],
         ''high'', ''Heavy rain '' @ em_dash @ '' hypothermia & slip risk'', None),
      ([[''rain''], [''shower'']],
         ''moderate'', ''Rain '' @ em_dash @ '' wet/hypothermia risk'', None),
      ([[''drizzle''], [''light rain'']],
         ''low'', ''Light rain / drizzle'', None),
      ([[''fog''], [''mist'']],
         ''moderate'', ''Fog / reduced visibility'', None)]"

fun rule_matches :: "string list list \<Rightarrow> string \<Rightarrow> bool" where
  "rule_matches alts c = list_ex (\<lambda>ks. list_all (\<lambda>k. str_in k c) ks) alts"

fun first_match :: "precip_rule list \<Rightarrow> string \<Rightarrow> string \<times> string \<times> string option" where
  "first_match [] c = (''low'', ''No precipitation hazards'', None)"
| "first_match ((alts, result) # rs) c =
     (if rule_matches alts c then result else first_match rs c)"

section \<open>The tables of the specification, read as half-open bands\<close>

text \<open>
  The heat-category table with each band closed below and open above, and the PT uniform
  bands extended up to the next band's lower bound. The functions of the source are
  compared with these readings below.
\<close>

definition heat_category_table :: "real \<Rightarrow> string \<times> int" where
  "heat_category_table wbgt_f =
     (if wbgt_f < 78 then (''Below White'', 1)
      else if wbgt_f < 82 then (''White (Cat 1)'', 1)
      else if wbgt_f < 85 then (''Green (Cat 2)'', 2)
      else if wbgt_f < 88 then (''Yellow (Cat 3)'', 3)
      else if wbgt_f < 90 then (''Red (Cat 4)'', 4)
      else (''Black (Cat 5)'', 5))"

definition pt_uniform_table :: "real \<Rightarrow> string" where
  "pt_uniform_table t =
     (if t > 80 then ''Short-sleeve shirt + shorts''
      else if 60 \<le> t then ''Short-sleeve shirt + shorts (light jacket optional)''
      else if 40 \<le> t then ''Long-sleeve shirt + pants''
      else if 20 \<le> t then ''Sweats + jacket (+ hat optional)''
      else ''Full cold-weather PT gear (sweats, gloves, hat)'')"

section \<open>Strings and the keyword table\<close>

lemma str_in_iff_sublist: "str_in sub s \<longleftrightarrow> sublist sub s"
  by (induction s) (auto simp: sublist_Cons_right)

lemma lower_char_idem: "lower_char (lower_char c) = lower_char c"
  by (simp add: lower_char_def)

lemma lower_str_idem: "lower_str (lower_str s) = lower_str s"
  by (simp add: lower_str_def lower_char_idem)

lemma interpret_lowered_first_match: "interpret_lowered c = first_match precip_rules c"
  by (simp add: interpret_lowered_def precip_rules_def)

lemma first_match_in:
  "first_match rs c \<in> insert (''low'', ''No precipitation hazards'', None) (snd ` set rs)"
  by (induction rs c rule: first_match.induct) auto

lemma interpret_lowered_range:
  "interpret_lowered c \<in> insert (''low'', ''No precipitation hazards'', None) (snd ` set precip_rules)"
  unfolding interpret_lowered_first_match by (rule first_match_in)

lemma interpret_lowered_extreme:
  assumes "fst (interpret_lowered c) = ''extreme''"
  shows "snd (snd (interpret_lowered c)) = Some ''NO OUTDOOR TRAINING''
       \<or> snd (snd (interpret_lowered c)) = Some ''NO OUTDOOR_TRAINING''"
  using interpret_lowered_range [of c] assms
  by (auto simp: precip_rules_def)

lemma interpret_blizzard_only:
  assumes "fst (snd (interpret_lowered c)) \<noteq> ''Blizzard / near-zero visibility''"
  shows "snd (snd (interpret_lowered c)) \<noteq> Some ''NO OUTDOOR_TRAINING''"
  using interpret_lowered_range [of c] assms
  by (auto simp: precip_rules_def)

lemma interpret_other_extremes:
  assumes "fst (snd (interpret_lowered c)) \<in>
     {''Thunderstorm / lightning risk'', ''Freezing rain / ice risk'', ''Icy conditions''}"
  shows "snd (snd (interpret_lowered c)) = Some ''NO OUTDOOR TRAINING''"
  using interpret_lowered_range [of c] assms
  by (auto simp: precip_rules_def)

lemma interpret_snow:
  "interpret_condition (Some ''Snow'') =
     (''moderate'', ''Snow present '' @ em_dash @ '' traction/visibility caution'', None)"
  by (simp add: interpret_condition_def interpret_lowered_def lower_str_def lower_char_def)

section \<open>The final decision's first rules\<close>

lemma final_override: "s \<noteq> [] \<Longrightarrow> final_training_decision temp_f wc h app (Some s) lvl = s"
  by (simp add: final_training_decision_def)

lemma final_cold:
  assumes "\<not> truthy ov" "w \<le> 20"
  shows "final_training_decision temp_f (Some w) h app ov lvl =
     (if w \<le> -20 then ''NO OUTDOOR TRAINING '' @ em_dash @ '' EXTREME COLD''
      else if w \<le> 0 then ''MOVE TRAINING INDOORS / HIGH COLD RISK''
      else ''LIMIT OUTDOOR TRAINING / USE INDOORS WHEN POSSIBLE (COLD CAUTION)'')"
  using assms by (simp add: final_training_decision_def)

section \<open>Bounds on the power of the wind-chill formula\<close>

text \<open>\<open>x powr 0.16\<close> is the 25th root of \<open>x ^ 4\<close>, so a rational bound on it is checked by
  comparing 25th powers.\<close>

lemma powr_016_pow25:
  fixes x :: real
  assumes "0 < x"
  shows "(x powr 0.16) ^ 25 = x ^ 4"
proof -
  have "(x powr 0.16) ^ 25 = x powr 4"
    using assms by (simp add: powr_power)
  also have "\<dots> = x ^ 4"
    using assms by simp
  finally show ?thesis .
qed

lemma powr_016_lower:
  fixes x l :: real
  assumes "0 < x" "0 \<le> l" "l ^ 25 \<le> x ^ 4"
  shows "l \<le> x powr 0.16"
proof (rule ccontr)
  assume "\<not> l \<le> x powr 0.16"
  then have "x powr 0.16 < l" by simp
  then have "(x powr 0.16) ^ 25 < l ^ 25"
    by (intro power_strict_mono) simp_all
  with powr_016_pow25 [OF assms(1)] assms(3) show False by simp
qed

lemma powr_016_upper:
  fixes x u :: real
  assumes "0 < x" "0 \<le> u" "x ^ 4 \<le> u ^ 25"
  shows "x powr 0.16 \<le> u"
proof (rule ccontr)
  assume "\<not> x powr 0.16 \<le> u"
  then have "u < x powr 0.16" by simp
  then have "u ^ 25 < (x powr 0.16) ^ 25"
    using assms(2) by (intro power_strict_mono) simp_all
  with powr_016_pow25 [OF assms(1)] assms(3) show False by simp
qed

lemma p10_lower: "(1.4432::real) \<le> 10 powr 0.16"
  by (rule powr_016_lower) (simp_all add: power_divide)

lemma p10_upper: "10 powr 0.16 \<le> (1.4519::real)"
  by (rule powr_016_upper) (simp_all add: power_divide)

lemma p15_lower: "(1.34::real) \<le> 15 powr 0.16"
  by (rule powr_016_lower) (simp_all add: power_divide)

lemma p15_upper: "15 powr 0.16 \<le> (1.96::real)"
  by (rule powr_016_upper) (simp_all add: power_divide)

lemma wc_30_10: "wind_chill_f 30 10 = Some (54.385 - 22.925 * 10 powr 0.16)"
  by (simp add: wind_chill_f_def)

lemma wc_10_15: "wind_chill_f 10 15 = Some (41.955 - 31.475 * 15 powr 0.16)"
  by (simp add: wind_chill_f_def)

lemma wc_10_15_range: "\<exists>w. wind_chill_f 10 15 = Some w \<and> -20 < w \<and> w \<le> 0"
proof -
  define p :: real where "p = 15 powr 0.16"
  have "1.34 \<le> p" "p \<le> 1.96"
    unfolding p_def by (rule p15_lower, rule p15_upper)
  then have "-20 < 41.955 - 31.475 * p \<and> 41.955 - 31.475 * p \<le> 0"
    by (simp; linarith)
  moreover have "wind_chill_f 10 15 = Some (41.955 - 31.475 * p)"
    unfolding p_def by (rule wc_10_15)
  ultimately show ?thesis by blast
qed

section \<open>Unit conversions\<close>


section \<open>Wind chill\<close>

text \<open>
  Claim C5. \<open>wind_chill_f\<close> returns the absent value exactly when the temperature is
  above 50 or the wind speed is at most 3; on every other input it returns the value of
  the formula, unclamped, and some of these values are negative.
\<close>

theorem wind_chill_f_absent_iff:
  "(wind_chill_f T V = None \<longleftrightarrow> T > 50 \<or> V \<le> 3)
   \<and> (T \<le> 50 \<and> V > 3 \<longrightarrow>
        wind_chill_f T V =
          Some (35.74 + 0.6215 * T - 35.75 * V powr 0.16 + 0.4275 * T * V powr 0.16))
   \<and> (\<exists>T' V' w. wind_chill_f T' V' = Some w \<and> w < 0)"
proof -
  have "(1::real) \<le> 4 powr 0.16"
    by (rule ge_one_powr_ge_zero) simp_all
  then have "wind_chill_f 0 4 = Some (35.74 - 35.75 * 4 powr 0.16)
      \<and> 35.74 - 35.75 * 4 powr 0.16 < (0::real)"
    by (simp add: wind_chill_f_def)
  then have "\<exists>T' V' w. wind_chill_f T' V' = Some w \<and> w < 0"
    by blast
  then show ?thesis
    by (simp add: wind_chill_f_def)
qed

theorem wind_chill_f_absent_iff_witness:
  "(0::real) \<le> 50 \<and> (4::real) > 3
   \<and> wind_chill_f 0 4 \<noteq> None
   \<and> wind_chill_f 0 4 =
       Some (35.74 + 0.6215 * 0 - 35.75 * 4 powr 0.16 + 0.4275 * 0 * 4 powr 0.16)"
  using wind_chill_f_absent_iff [of 0 4] by simp

text \<open>
  Claim C8, as stated: \<open>wind_chill_f 30 10\<close> is within 0.1 of 16.0. It is not: the
  formula gives about 21.25 there.
\<close>

theorem wind_chill_f_30_10_not_16:
  "\<not> (\<exists>w. wind_chill_f 30 10 = Some w \<and> \<bar>w - 16.0\<bar> \<le> 0.1)"
proof -
  define p :: real where "p = 10 powr 0.16"
  have "p \<le> 1.4519"
    unfolding p_def by (rule p10_upper)
  then have "\<not> \<bar>(54.385 - 22.925 * p) - 16.0\<bar> \<le> 0.1"
    unfolding abs_le_iff by (simp; linarith)
  moreover have "wind_chill_f 30 10 = Some (54.385 - 22.925 * p)"
    unfolding p_def by (rule wc_30_10)
  ultimately show ?thesis by simp
qed

text \<open>
  Claim C8, amended. \<open>wind_chill_f 55 10\<close> and \<open>wind_chill_f 30 2\<close> are absent, and
  \<open>wind_chill_f 30 10\<close> is defined and within 0.1 of 21.2.
\<close>

theorem wind_chill_f_examples:
  "wind_chill_f 55 10 = None \<and> wind_chill_f 30 2 = None
   \<and> (\<exists>w. wind_chill_f 30 10 = Some w \<and> \<bar>w - 21.2\<bar> \<le> 0.1)"
proof -
  have "wind_chill_f 55 10 = None" "wind_chill_f 30 2 = None"
    by (simp_all add: wind_chill_f_def)
  moreover have "\<exists>w. wind_chill_f 30 10 = Some w \<and> \<bar>w - 21.2\<bar> \<le> 0.1"
  proof -
    define p :: real where "p = 10 powr 0.16"
    have "1.4432 \<le> p" "p \<le> 1.4519"
      unfolding p_def by (rule p10_lower, rule p10_upper)
    then have "\<bar>(54.385 - 22.925 * p) - 21.2\<bar> \<le> 0.1"
      unfolding abs_le_iff by (simp; linarith)
    moreover have "wind_chill_f 30 10 = Some (54.385 - 22.925 * p)"
      unfolding p_def by (rule wc_30_10)
    ultimately show ?thesis by blast
  qed
  ultimately show ?thesis by blast
qed

section \<open>Heat category\<close>

text \<open>
  The bands of the source are closed intervals whose upper ends are written to one
  decimal place. Between one band's upper end and the next band's lower end no test of
  the chain holds and the last line answers. Off these four gaps the source agrees with
  the half-open reading of the table, and inside them it does not.
\<close>

lemma heat_category_agrees_iff:
  "heat_category_from_wbgt_f w = heat_category_table w \<longleftrightarrow>
     \<not> (81.9 < w \<and> w < 82) \<and> \<not> (84.9 < w \<and> w < 85)
     \<and> \<not> (87.9 < w \<and> w < 88) \<and> \<not> (89.9 < w \<and> w < 90)"
  by (simp add: heat_category_from_wbgt_f_def heat_category_table_def)

lemma heat_category_table_mono:
  "v \<le> w \<Longrightarrow> snd (heat_category_table v) \<le> snd (heat_category_table w)"
  by (simp add: heat_category_table_def)

text \<open>
  Claim C1 says that a WBGT in \<open>[78, 82)\<close> is White (Cat 1) with severity 1 and that
  severity never decreases as WBGT grows. At 81.95 the source returns Black (Cat 5) with
  severity 5, which is more than the severity 2 it returns at 82.
\<close>

theorem heat_category_gap_is_black:
  "heat_category_from_wbgt_f 81.95 = (''Black (Cat 5)'', 5)
   \<and> heat_category_table 81.95 = (''White (Cat 1)'', 1)
   \<and> heat_category_from_wbgt_f 82 = (''Green (Cat 2)'', 2)
   \<and> snd (heat_category_from_wbgt_f 82) < snd (heat_category_from_wbgt_f 81.95)"
  by (simp add: heat_category_from_wbgt_f_def heat_category_table_def)

section \<open>PT uniform\<close>

text \<open>
  The bands 40 to 59 and 20 to 39 of the source are closed intervals with integer ends,
  so a temperature strictly between 59 and 60 or between 39 and 40 reaches the last
  line. Off these two gaps the source agrees with the bands extended to the next lower
  bound.
\<close>

lemma recommend_pt_uniform_agrees_iff:
  "recommend_pt_uniform (Numeric t) = pt_uniform_table t \<longleftrightarrow>
     \<not> (59 < t \<and> t < 60) \<and> \<not> (39 < t \<and> t < 40)"
  by (simp add: recommend_pt_uniform_def pt_uniform_table_def)

text \<open>
  Claim C6 says that every real temperature receives the label of the band it lies in,
  the full cold-weather label being that of temperatures below 20. At 59.5 and at 39.5
  the source returns the full cold-weather label. A non-numeric argument does get the
  generic label.
\<close>

theorem recommend_pt_uniform_gap_is_cold_gear:
  "recommend_pt_uniform (Numeric 59.5) = ''Full cold-weather PT gear (sweats, gloves, hat)''
   \<and> recommend_pt_uniform (Numeric 39.5) = ''Full cold-weather PT gear (sweats, gloves, hat)''
   \<and> recommend_pt_uniform (Numeric 19.5) = ''Full cold-weather PT gear (sweats, gloves, hat)''
   \<and> recommend_pt_uniform NonNumeric = ''Standard PT uniform''"
  by (simp add: recommend_pt_uniform_def)

section \<open>Precipitation overrides\<close>

text \<open>
  Claim C3. Whenever \<open>interpret_condition\<close> classifies a condition text as extreme, the
  override it returns is a non-empty string, and \<open>final_training_decision\<close> returns that
  string whatever the wind chill, the heat category, WBGT applicability and the
  precipitation level are. The dashboard's decision for such a text is that string too.
\<close>

theorem extreme_override_verbatim:
  assumes "fst (interpret_condition t) = ''extreme''"
  shows "\<exists>s. snd (snd (interpret_condition t)) = Some s \<and> s \<noteq> []
     \<and> final_training_decision temp_f wc h app (snd (snd (interpret_condition t))) lvl = s
     \<and> dashboard_final_dec temp_f wind_mph wbgt_f t = s"
proof -
  obtain lv nt ov where r: "interpret_condition t = (lv, nt, ov)"
    by (cases "interpret_condition t") auto
  from assms interpret_lowered_extreme [of "lower_str (case t of None \<Rightarrow> [] | Some u \<Rightarrow> u)"]
  have "ov = Some ''NO OUTDOOR TRAINING'' \<or> ov = Some ''NO OUTDOOR_TRAINING''"
    using r by (simp add: interpret_condition_def)
  then obtain s where s: "ov = Some s" "s \<noteq> []" by auto
  have "final_training_decision temp_f wc h app (Some s) lvl = s" for temp_f wc h app lvl
    using s(2) by (rule final_override)
  then show ?thesis
    using r s by (simp add: dashboard_final_dec_def)
qed

theorem extreme_override_verbatim_witness:
  "fst (interpret_condition (Some ''Patchy light rain with THUNDER'')) = ''extreme''
   \<and> (\<exists>s. snd (snd (interpret_condition (Some ''Patchy light rain with THUNDER''))) = Some s
     \<and> s \<noteq> []
     \<and> final_training_decision (-5) (Some (-25)) (Some 5) True
          (snd (snd (interpret_condition (Some ''Patchy light rain with THUNDER'')))) ''high'' = s
     \<and> dashboard_final_dec (-5) 30 95 (Some ''Patchy light rain with THUNDER'') = s)"
proof -
  have h: "fst (interpret_condition (Some ''Patchy light rain with THUNDER'')) = ''extreme''"
    by (simp add: interpret_condition_def interpret_lowered_def lower_str_def lower_char_def)
  show ?thesis
    using h extreme_override_verbatim [OF h, of "-5" "Some (-25)" "Some 5" True "''high''" 30 95]
    by blast
qed

section \<open>Cold before precipitation and heat\<close>

text \<open>
  Claim C2. When there is no precipitation override and the wind chill is defined and at
  most 20, \<open>final_training_decision\<close> returns the cold decision of the wind chill's band,
  whatever the precipitation level and the heat category are. For 10 \<degree>F, 15 mph and the
  text "Snow", the text is read as moderate with no override, the wind chill is defined
  and lies in \<open>(-20, 0]\<close>, and the dashboard's decision is to move training indoors. A
  wind chill of at most -20 with low precipitation gives the extreme-cold decision.
\<close>

theorem cold_decision_before_precip_and_heat:
  "(\<not> truthy ov \<and> w \<le> 20 \<longrightarrow>
      final_training_decision temp_f (Some w) h app ov lvl =
        (if w \<le> -20 then ''NO OUTDOOR TRAINING '' @ em_dash @ '' EXTREME COLD''
         else if w \<le> 0 then ''MOVE TRAINING INDOORS / HIGH COLD RISK''
         else ''LIMIT OUTDOOR TRAINING / USE INDOORS WHEN POSSIBLE (COLD CAUTION)''))
   \<and> interpret_condition (Some ''Snow'') =
        (''moderate'', ''Snow present '' @ em_dash @ '' traction/visibility caution'', None)
   \<and> (\<exists>wc. wind_chill_f 10 15 = Some wc \<and> -20 < wc \<and> wc \<le> 0)
   \<and> dashboard_final_dec 10 15 wbgt_f (Some ''Snow'') = ''MOVE TRAINING INDOORS / HIGH COLD RISK''
   \<and> (w \<le> -20 \<longrightarrow>
        final_training_decision temp_f (Some w) h app None ''low'' =
          ''NO OUTDOOR TRAINING '' @ em_dash @ '' EXTREME COLD'')"
proof -
  have general: "\<not> truthy ov \<and> w \<le> 20 \<longrightarrow>
      final_training_decision temp_f (Some w) h app ov lvl =
        (if w \<le> -20 then ''NO OUTDOOR TRAINING '' @ em_dash @ '' EXTREME COLD''
         else if w \<le> 0 then ''MOVE TRAINING INDOORS / HIGH COLD RISK''
         else ''LIMIT OUTDOOR TRAINING / USE INDOORS WHEN POSSIBLE (COLD CAUTION)'')"
    using final_cold [of ov w temp_f h app lvl] by blast
  obtain wc where wc: "wind_chill_f 10 15 = Some wc" "-20 < wc" "wc \<le> 0"
    using wc_10_15_range by blast
  have scenario: "dashboard_final_dec 10 15 wbgt_f (Some ''Snow'') =
      ''MOVE TRAINING INDOORS / HIGH COLD RISK''"
    using wc final_cold [of None wc 10 "dashboard_heat_num 10 wbgt_f" "10 > WBGT_CUTOFF_F" "''moderate''"]
    by (simp add: dashboard_final_dec_def interpret_snow)
  have extreme: "w \<le> -20 \<longrightarrow>
      final_training_decision temp_f (Some w) h app None ''low'' =
        ''NO OUTDOOR TRAINING '' @ em_dash @ '' EXTREME COLD''"
    using final_cold [of None w temp_f h app "''low''"] by simp
  from general interpret_snow wc scenario extreme show ?thesis
    by blast
qed

theorem cold_decision_before_precip_and_heat_witness:
  "\<not> truthy None \<and> (-25::real) \<le> 20 \<and> (-25::real) \<le> -20
   \<and> final_training_decision (-5) (Some (-25)) (Some 5) True None ''high'' =
       ''NO OUTDOOR TRAINING '' @ em_dash @ '' EXTREME COLD''
   \<and> final_training_decision (-5) (Some (-25)) (Some 5) True None ''low'' =
       ''NO OUTDOOR TRAINING '' @ em_dash @ '' EXTREME COLD''"
  using cold_decision_before_precip_and_heat [of None "-25" "-5" "Some 5" True "''high''"]
  by simp

section \<open>WBGT and wind chill\<close>

text \<open>
  Claim C7. For every temperature and wind speed, WBGT applicability and a defined wind
  chill never hold together. So in the dashboard's call of \<open>recommend_uniform_option_a\<close>
  the guard of the heat rule and the guard of the wind-chill rule never both hold: the
  call either passes no wind chill, or passes no heat category and no applicability.
\<close>

theorem wbgt_and_wind_chill_exclusive:
  "\<not> (temp_f > WBGT_CUTOFF_F \<and> wind_chill_f temp_f wind_mph \<noteq> None)
   \<and> \<not> ((temp_f > WBGT_CUTOFF_F \<and> dashboard_heat_num temp_f wbgt_f \<noteq> None)
          \<and> wind_chill_f temp_f wind_mph \<noteq> None)
   \<and> dashboard_uniform temp_f wind_mph wbgt_f t =
       (if temp_f > WBGT_CUTOFF_F
          then recommend_uniform_option_a temp_f None
                 (dashboard_heat_num temp_f wbgt_f) True (fst (interpret_condition t))
        else recommend_uniform_option_a temp_f (wind_chill_f temp_f wind_mph)
                 None False (fst (interpret_condition t)))"
  by (simp add: WBGT_CUTOFF_F_def wind_chill_f_def dashboard_heat_num_def
        dashboard_uniform_def split: prod.split)

section \<open>Keyword priority\<close>

text \<open>
  Claim C4. \<open>interpret_condition\<close> reads its keyword rules in the fixed order of the
  table, the first matching row deciding; keywords are matched as substrings of the
  lowered text, so a text and its lowered form are read alike. A text that contains
  "freezing rain" in any letter case is read as extreme with a hard override, never as
  moderate, and when it has no thunder or storm keyword the freezing-rain row is the one
  that answers.
\<close>

theorem interpret_condition_priority:
  "interpret_condition (Some t) = first_match precip_rules (lower_str t)
   \<and> interpret_condition (Some (lower_str t)) = interpret_condition (Some t)
   \<and> (str_in ''freezing rain'' (lower_str t) \<longrightarrow>
        fst (interpret_condition (Some t)) = ''extreme''
        \<and> fst (interpret_condition (Some t)) \<noteq> ''moderate''
        \<and> snd (snd (interpret_condition (Some t))) = Some ''NO OUTDOOR TRAINING'')
   \<and> (str_in ''freezing rain'' (lower_str t)
        \<and> \<not> str_in ''thunder'' (lower_str t) \<and> \<not> str_in ''storm'' (lower_str t) \<longrightarrow>
        interpret_condition (Some t) =
          (''extreme'', ''Freezing rain / ice risk'', Some ''NO OUTDOOR TRAINING''))"
proof -
  have table: "interpret_condition (Some t) = first_match precip_rules (lower_str t)"
    by (simp add: interpret_condition_def interpret_lowered_first_match)
  have lowered: "interpret_condition (Some (lower_str t)) = interpret_condition (Some t)"
    by (simp add: interpret_condition_def lower_str_idem)
  have level: "fst (interpret_condition (Some t)) = ''extreme''
      \<and> fst (interpret_condition (Some t)) \<noteq> ''moderate''
      \<and> snd (snd (interpret_condition (Some t))) = Some ''NO OUTDOOR TRAINING''"
    if "str_in ''freezing rain'' (lower_str t)"
    using that by (simp add: interpret_condition_def interpret_lowered_def)
  have row: "interpret_condition (Some t) =
      (''extreme'', ''Freezing rain / ice risk'', Some ''NO OUTDOOR TRAINING'')"
    if "str_in ''freezing rain'' (lower_str t)"
      "\<not> str_in ''thunder'' (lower_str t)" "\<not> str_in ''storm'' (lower_str t)"
    using that by (simp add: interpret_condition_def interpret_lowered_def)
  from table lowered level row show ?thesis
    by blast
qed

theorem interpret_condition_priority_witness:
  "str_in ''freezing rain'' (lower_str ''Light Freezing RAIN'')
   \<and> \<not> str_in ''thunder'' (lower_str ''Light Freezing RAIN'')
   \<and> \<not> str_in ''storm'' (lower_str ''Light Freezing RAIN'')
   \<and> interpret_condition (Some ''Light Freezing RAIN'') =
       (''extreme'', ''Freezing rain / ice risk'', Some ''NO OUTDOOR TRAINING'')
   \<and> fst (interpret_condition (Some ''Light Freezing RAIN'')) \<noteq> ''moderate''"
proof -
  have h: "str_in ''freezing rain'' (lower_str ''Light Freezing RAIN'')
      \<and> \<not> str_in ''thunder'' (lower_str ''Light Freezing RAIN'')
      \<and> \<not> str_in ''storm'' (lower_str ''Light Freezing RAIN'')"
    by (simp add: lower_str_def lower_char_def)
  show ?thesis
    using h interpret_condition_priority [of "''Light Freezing RAIN''"] by blast
qed

section \<open>The blizzard override\<close>

text \<open>
  Claim C10. A text that contains "blizzard" and matches none of the earlier rows is read
  as extreme with the override "NO OUTDOOR_TRAINING", written with an underscore. The
  thunderstorm, freezing-rain and icy-conditions rows return "NO OUTDOOR TRAINING", a
  different string, and no other row returns the underscore form.
  \<open>final_training_decision\<close> and the dashboard return the underscore form as it is.
\<close>

theorem blizzard_override_underscore:
  "(str_in ''blizzard'' (lower_str t)
      \<and> \<not> str_in ''thunder'' (lower_str t) \<and> \<not> str_in ''storm'' (lower_str t)
      \<and> \<not> str_in ''freezing rain'' (lower_str t)
      \<and> \<not> (str_in ''freezing'' (lower_str t) \<and> str_in ''rain'' (lower_str t))
      \<and> \<not> str_in ''sleet'' (lower_str t) \<and> \<not> str_in ''ice'' (lower_str t)
      \<and> \<not> str_in ''icy'' (lower_str t) \<longrightarrow>
      interpret_condition (Some t) =
        (''extreme'', ''Blizzard / near-zero visibility'', Some ''NO OUTDOOR_TRAINING'')
      \<and> final_training_decision temp_f wc h app
           (snd (snd (interpret_condition (Some t)))) (fst (interpret_condition (Some t))) =
         ''NO OUTDOOR_TRAINING''
      \<and> dashboard_final_dec temp_f wind_mph wbgt_f (Some t) = ''NO OUTDOOR_TRAINING'')
   \<and> (fst (snd (interpret_condition u)) \<in>
        {''Thunderstorm / lightning risk'', ''Freezing rain / ice risk'', ''Icy conditions''} \<longrightarrow>
        snd (snd (interpret_condition u)) = Some ''NO OUTDOOR TRAINING'')
   \<and> (fst (snd (interpret_condition u)) \<noteq> ''Blizzard / near-zero visibility'' \<longrightarrow>
        snd (snd (interpret_condition u)) \<noteq> Some ''NO OUTDOOR_TRAINING'')
   \<and> ''NO OUTDOOR_TRAINING'' \<noteq> ''NO OUTDOOR TRAINING''"
proof -
  have blizzard: "interpret_condition (Some t) =
        (''extreme'', ''Blizzard / near-zero visibility'', Some ''NO OUTDOOR_TRAINING'')
      \<and> final_training_decision temp_f wc h app
           (snd (snd (interpret_condition (Some t)))) (fst (interpret_condition (Some t))) =
         ''NO OUTDOOR_TRAINING''
      \<and> dashboard_final_dec temp_f wind_mph wbgt_f (Some t) = ''NO OUTDOOR_TRAINING''"
    if "str_in ''blizzard'' (lower_str t)"
      "\<not> str_in ''thunder'' (lower_str t)" "\<not> str_in ''storm'' (lower_str t)"
      "\<not> str_in ''freezing rain'' (lower_str t)"
      "\<not> (str_in ''freezing'' (lower_str t) \<and> str_in ''rain'' (lower_str t))"
      "\<not> str_in ''sleet'' (lower_str t)" "\<not> str_in ''ice'' (lower_str t)"
      "\<not> str_in ''icy'' (lower_str t)"
  proof -
    have r: "interpret_condition (Some t) =
        (''extreme'', ''Blizzard / near-zero visibility'', Some ''NO OUTDOOR_TRAINING'')"
      using that by (simp add: interpret_condition_def interpret_lowered_def)
    have f: "final_training_decision a b c d (Some ''NO OUTDOOR_TRAINING'') l =
        ''NO OUTDOOR_TRAINING''" for a b c d l
      by (rule final_override) simp
    show ?thesis
      using f by (simp add: r dashboard_final_dec_def)
  qed
  have others: "snd (snd (interpret_condition u)) = Some ''NO OUTDOOR TRAINING''"
    if "fst (snd (interpret_condition u)) \<in>
        {''Thunderstorm / lightning risk'', ''Freezing rain / ice risk'', ''Icy conditions''}"
    using that unfolding interpret_condition_def by (rule interpret_other_extremes)
  have only: "snd (snd (interpret_condition u)) \<noteq> Some ''NO OUTDOOR_TRAINING''"
    if "fst (snd (interpret_condition u)) \<noteq> ''Blizzard / near-zero visibility''"
    using that unfolding interpret_condition_def by (rule interpret_blizzard_only)
  have differ: "''NO OUTDOOR_TRAINING'' \<noteq> ''NO OUTDOOR TRAINING''"
    by simp
  from blizzard others only differ show ?thesis
    by blast
qed

theorem blizzard_override_underscore_witness:
  "str_in ''blizzard'' (lower_str ''Blizzard'')
   \<and> interpret_condition (Some ''Blizzard'') =
       (''extreme'', ''Blizzard / near-zero visibility'', Some ''NO OUTDOOR_TRAINING'')
   \<and> final_training_decision 5 (Some (-25)) None False
        (snd (snd (interpret_condition (Some ''Blizzard''))))
        (fst (interpret_condition (Some ''Blizzard''))) = ''NO OUTDOOR_TRAINING''
   \<and> dashboard_final_dec 5 40 20 (Some ''Blizzard'') = ''NO OUTDOOR_TRAINING''
   \<and> fst (snd (interpret_condition (Some ''Thundery outbreaks possible''))) =
       ''Thunderstorm / lightning risk''
   \<and> snd (snd (interpret_condition (Some ''Thundery outbreaks possible''))) =
       Some ''NO OUTDOOR TRAINING''
   \<and> snd (snd (interpret_condition (Some ''Thundery outbreaks possible''))) \<noteq>
       Some ''NO OUTDOOR_TRAINING''"
proof -
  have h: "str_in ''blizzard'' (lower_str ''Blizzard'')
      \<and> \<not> str_in ''thunder'' (lower_str ''Blizzard'') \<and> \<not> str_in ''storm'' (lower_str ''Blizzard'')
      \<and> \<not> str_in ''freezing rain'' (lower_str ''Blizzard'')
      \<and> \<not> (str_in ''freezing'' (lower_str ''Blizzard'') \<and> str_in ''rain'' (lower_str ''Blizzard''))
      \<and> \<not> str_in ''sleet'' (lower_str ''Blizzard'') \<and> \<not> str_in ''ice'' (lower_str ''Blizzard'')
      \<and> \<not> str_in ''icy'' (lower_str ''Blizzard'')"
    by (simp add: lower_str_def lower_char_def)
  have g: "fst (snd (interpret_condition (Some ''Thundery outbreaks possible''))) =
      ''Thunderstorm / lightning risk''"
    by (simp add: interpret_condition_def interpret_lowered_def lower_str_def lower_char_def)
  then have g': "fst (snd (interpret_condition (Some ''Thundery outbreaks possible''))) \<in>
      {''Thunderstorm / lightning risk'', ''Freezing rain / ice risk'', ''Icy conditions''}"
    and g'': "fst (snd (interpret_condition (Some ''Thundery outbreaks possible''))) \<noteq>
      ''Blizzard / near-zero visibility''"
    by simp_all
  show ?thesis
    using h g g' g''
      blizzard_override_underscore [of "''Blizzard''" 5 "Some (-25)" None False 40 20
        "Some ''Thundery outbreaks possible''"]
    by blast
qed

end
